theory Spec2Isabelle
  imports Main
begin

section \<open>Strings of the script\<close>

text \<open>
  A Python \<open>str\<close> is modelled as a \<open>string\<close>. The literals of \<open>railway-deploy.py\<close>
  contain characters outside ASCII (the pictographs that start each log line and one
  umlaut); they are written here as the UTF-8 bytes the source file holds for them.
\<close>

definition sym_arrows :: string where
  "sym_arrows = [CHR 0xF0, CHR 0x9F, CHR 0x94, CHR 0x84]"

definition sym_check :: string where
  "sym_check = [CHR 0xE2, CHR 0x9C, CHR 0x85]"

definition sym_cross :: string where
  "sym_cross = [CHR 0xE2, CHR 0x9D, CHR 0x8C]"

definition sym_clock :: string where
  "sym_clock = [CHR 0xE2, CHR 0x8F, CHR 0xB0]"

definition sym_collision :: string where
  "sym_collision = [CHR 0xF0, CHR 0x9F, CHR 0x92, CHR 0xA5]"

definition sym_locomotive :: string where
  "sym_locomotive = [CHR 0xF0, CHR 0x9F, CHR 0x9A, CHR 0x82]"

definition sym_chart :: string where
  "sym_chart = [CHR 0xF0, CHR 0x9F, CHR 0x93, CHR 0x8A]"

definition sym_key :: string where
  "sym_key = [CHR 0xF0, CHR 0x9F, CHR 0x94, CHR 0x91]"

definition sym_rocket :: string where
  "sym_rocket = [CHR 0xF0, CHR 0x9F, CHR 0x9A, CHR 0x80]"

definition sym_glass :: string where
  "sym_glass = [CHR 0xF0, CHR 0x9F, CHR 0x94, CHR 0x8D]"

definition sym_globe :: string where
  "sym_globe = [CHR 0xF0, CHR 0x9F, CHR 0x8C, CHR 0x90]"

definition sym_popper :: string where
  "sym_popper = [CHR 0xF0, CHR 0x9F, CHR 0x8E, CHR 0x89]"

definition u_umlaut :: string where
  "u_umlaut = [CHR 0xC3, CHR 0xBC]"

definition newline :: string where
  "newline = [CHR 0x0A]"

definition dquote :: string where
  "dquote = [CHR 0x22]"

definition backslash :: string where
  "backslash = [CHR 0x5C]"

text \<open>
  \<open>str_int\<close> is what an f-string makes of an integer (\<open>{timeout}\<close> at line 32): its
  decimal digits, with a minus sign when it is negative.
\<close>

fun str_nat :: "nat \<Rightarrow> string" where
  "str_nat n =
     (if n < 10 then [''0123456789'' ! n]
      else str_nat (n div 10) @ [''0123456789'' ! (n mod 10)])"

declare str_nat.simps [simp del]

definition str_int :: "int \<Rightarrow> string" where
  "str_int i = (if i < 0 then ''-'' @ str_nat (nat (- i)) else str_nat (nat i))"

section \<open>The process and its surroundings\<close>

text \<open>
  \<open>os.environ\<close> is an association list from names to values. Assigning to a name that
  is present replaces its value in place; a new name is added at the end.
\<close>

type_synonym env = "(string \<times> string) list"

fun setitem :: "string \<Rightarrow> string \<Rightarrow> env \<Rightarrow> env" where
  "setitem k v [] = [(k, v)]"
| "setitem k v ((k', v') # e) =
     (if k = k' then (k, v) # e else (k', v') # setitem k v e)"

text \<open>
  The arguments of one call of \<open>subprocess.run\<close> (lines 16 to 23), together with the
  environment the child inherits, which is \<open>os.environ\<close> at the moment of the call
  since no \<open>env\<close> argument is passed.
\<close>

record invocation =
  p_args :: string
  p_shell :: bool
  p_capture_output :: bool
  p_text :: bool
  p_timeout :: int
  p_cwd :: string
  p_env :: env

text \<open>
  Everything the script does to the outside, in the order it does it: a line printed, an
  assignment to \<open>os.environ\<close>, a call of \<open>subprocess.run\<close>, a \<open>time.sleep\<close> of so many
  seconds.
\<close>

datatype event =
    Print string
  | SetEnv string string
  | SubprocessRun invocation
  | Sleep nat

text \<open>
  What a call of \<open>subprocess.run\<close> may do: the child exits with a return code and the
  captured standard output and standard error; or the timeout expires; or the call
  fails with some other exception (an \<open>OSError\<close> for a missing working directory, a
  \<open>UnicodeDecodeError\<close> on the captured bytes, ...) whose \<open>str\<close> is the message. The
  model is sequential: an interrupt delivered to the interpreter from outside
  (\<open>KeyboardInterrupt\<close>) is not an outcome of a call and has no place in it, and
  \<open>print\<close> is taken to succeed.

  The outside world decides the outcome. It is a parameter of the model: a function of
  the number of earlier calls and of the call's arguments, so that the same command may
  fare differently at different times.
\<close>

datatype outcome =
    Exits int string string
  | TimesOut
  | Fails string

type_synonym world = "nat \<Rightarrow> invocation \<Rightarrow> outcome"

record completed_process =
  returncode :: int
  stdout :: string
  stderr :: string

datatype pyexn =
    TimeoutExpired
  | OtherException string

text \<open>
  The state of the process: its environment, the events so far, and the number of calls
  of \<open>subprocess.run\<close> so far (which only serves to ask the world for the next outcome).
\<close>

record pstate =
  environ :: env
  trace :: "event list"
  calls :: nat

definition initial :: "env \<Rightarrow> pstate" where
  "initial e = \<lparr>environ = e, trace = [], calls = 0\<rparr>"

definition emit :: "event \<Rightarrow> pstate \<Rightarrow> pstate" where
  "emit ev st = st\<lparr>trace := trace st @ [ev]\<rparr>"

definition print_py :: "string \<Rightarrow> pstate \<Rightarrow> pstate" where
  "print_py s st = emit (Print s) st"

definition time_sleep :: "nat \<Rightarrow> pstate \<Rightarrow> pstate" where
  "time_sleep n st = emit (Sleep n) st"

definition os_environ_set :: "string \<Rightarrow> string \<Rightarrow> pstate \<Rightarrow> pstate" where
  "os_environ_set k v st = emit (SetEnv k v) (st\<lparr>environ := setitem k v (environ st)\<rparr>)"

definition subprocess_run ::
  "world \<Rightarrow> invocation \<Rightarrow> pstate \<Rightarrow> (pyexn + completed_process) \<times> pstate" where
  "subprocess_run w call st =
     (case w (calls st) call of
        Exits rc out err \<Rightarrow>
          (Inr \<lparr>returncode = rc, stdout = out, stderr = err\<rparr>,
           emit (SubprocessRun call) (st\<lparr>calls := Suc (calls st)\<rparr>))
      | TimesOut \<Rightarrow>
          (Inl TimeoutExpired, emit (SubprocessRun call) (st\<lparr>calls := Suc (calls st)\<rparr>))
      | Fails m \<Rightarrow>
          (Inl (OtherException m), emit (SubprocessRun call) (st\<lparr>calls := Suc (calls st)\<rparr>)))"

section \<open>run_command (lines 12 to 36)\<close>

definition default_timeout :: int where
  "default_timeout = 30"

definition working_directory :: string where
  "working_directory =
     ''D:'' @ backslash @ ''Claude'' @ backslash @ ''Projects'' @ backslash @ ''auto-alert-saas''"

definition invocation_of :: "string \<Rightarrow> int \<Rightarrow> env \<Rightarrow> invocation" where
  "invocation_of cmd t e =
     \<lparr>p_args = cmd, p_shell = True, p_capture_output = True, p_text = True,
      p_timeout = t, p_cwd = working_directory, p_env = e\<rparr>"

text \<open>
  The result is \<open>Inr (Some s)\<close> for \<open>return s\<close>, \<open>Inr None\<close> for \<open>return None\<close>, and
  \<open>Inl e\<close> for an exception \<open>e\<close> that leaves the function. The two \<open>except\<close> clauses are
  tried in the order of the source.
\<close>

definition run_command ::
  "world \<Rightarrow> string \<Rightarrow> int \<Rightarrow> pstate \<Rightarrow> (pyexn + string option) \<times> pstate" where
  "run_command w cmd t st =
     (case subprocess_run w (invocation_of cmd t (environ st))
             (print_py (sym_arrows @ '' Executing: '' @ cmd) st) of
        (Inr result, st') \<Rightarrow>
          (if returncode result = 0
           then (Inr (Some (stdout result)),
                 print_py (sym_check @ '' Success: '' @ stdout result) st')
           else (Inr None, print_py (sym_cross @ '' Error: '' @ stderr result) st'))
      | (Inl TimeoutExpired, st') \<Rightarrow>
          (Inr None, print_py (sym_clock @ '' Timeout after '' @ str_int t @ ''s'') st')
      | (Inl (OtherException m), st') \<Rightarrow>
          (Inr None, print_py (sym_collision @ '' Exception: '' @ m) st'))"

section \<open>main (lines 38 to 75)\<close>

definition msg_title :: string where
  "msg_title = sym_locomotive @ '' Railway Auto-Deploy f'' @ u_umlaut @ ''r Auto-Alert SaaS''"

definition msg_status :: string where
  "msg_status = newline @ sym_chart @ '' 1. Checking Railway Status...''"

definition msg_variables :: string where
  "msg_variables = newline @ sym_key @ '' 2. Setting Environment Variables...''"

definition msg_deploy :: string where
  "msg_deploy = newline @ sym_rocket @ '' 3. Starting Deployment...''"

definition msg_success :: string where
  "msg_success = newline @ sym_check @ '' Deployment initiated successfully!''"

definition msg_logs :: string where
  "msg_logs = sym_glass @ '' Check status with: railway logs''"

definition msg_dashboard :: string where
  "msg_dashboard = sym_globe @ '' Open dashboard: https://railway.app/dashboard''"

definition msg_failure :: string where
  "msg_failure = newline @ sym_cross @ '' Deployment failed - check Railway CLI manually''"

definition msg_complete :: string where
  "msg_complete = newline @ sym_popper @ '' Railway Auto-Deploy Complete!''"

definition railway_token :: string where
  "railway_token = ''fbe36775-4296-484e-bd0f-72aa378e01e6''"

definition env_vars :: "(string \<times> string) list" where
  "env_vars =
     [(''NODE_ENV'', ''production''),
      (''PORT'', ''3001''),
      (''WEBHOOK_SECRET'', ''auto-alert-webhook-secret-2024'')]"

definition set_cmd :: "string \<Rightarrow> string \<Rightarrow> string" where
  "set_cmd k v = ''railway variables --set '' @ dquote @ k @ ''='' @ v @ dquote"

text \<open>
  Python's truth value of what \<open>run_command\<close> returns (line 68): \<open>None\<close> and the empty
  string are false, every other string is true.
\<close>

fun truthy :: "string option \<Rightarrow> bool" where
  "truthy None = False"
| "truthy (Some s) = (s \<noteq> [])"

text \<open>
  \<open>main\<close> calls \<open>run_command\<close> five times. Its body is written over the function it
  calls, \<open>rc\<close>, so that what \<open>main\<close> itself does with the values returned can be told
  from what \<open>run_command\<close> does; \<open>main\<close> is the body over \<open>run_command\<close>. An exception
  leaving a call leaves \<open>main\<close>: nothing in \<open>main\<close> catches.
\<close>

type_synonym runner = "string \<Rightarrow> int \<Rightarrow> pstate \<Rightarrow> (pyexn + string option) \<times> pstate"

text \<open>The loop of lines 59 to 62 over the items of the dictionary, in insertion order.\<close>

fun set_variables :: "runner \<Rightarrow> (string \<times> string) list \<Rightarrow> pstate \<Rightarrow> (pyexn + unit) \<times> pstate" where
  "set_variables rc [] st = (Inr (), st)"
| "set_variables rc ((k, v) # rest) st =
     (case rc (set_cmd k v) 10 st of
        (Inl e, st') \<Rightarrow> (Inl e, st')
      | (Inr r, st') \<Rightarrow> set_variables rc rest (time_sleep 1 st'))"

text \<open>Lines 40 to 62: the banner, the token, the status query and the loop.\<close>

definition main_setup :: "runner \<Rightarrow> pstate \<Rightarrow> (pyexn + unit) \<times> pstate" where
  "main_setup rc st =
     (case rc ''railway status'' default_timeout
             (print_py msg_status
               (os_environ_set ''RAILWAY_TOKEN'' railway_token
                 (print_py (replicate 50 (CHR ''=''))
                   (print_py msg_title st)))) of
        (Inl e, st') \<Rightarrow> (Inl e, st')
      | (Inr status, st') \<Rightarrow> set_variables rc env_vars (print_py msg_variables st'))"

text \<open>Lines 65 and 66: the value is what line 66 binds to \<open>deploy\<close>.\<close>

definition main_deploy :: "runner \<Rightarrow> pstate \<Rightarrow> (pyexn + string option) \<times> pstate" where
  "main_deploy rc st = rc ''railway up --detach'' 120 (print_py msg_deploy st)"

text \<open>Lines 68 to 75.\<close>

definition main_report :: "string option \<Rightarrow> pstate \<Rightarrow> pstate" where
  "main_report deploy st =
     print_py msg_complete
       (if truthy deploy
        then print_py msg_dashboard (print_py msg_logs (print_py msg_success st))
        else print_py msg_failure st)"

definition main_body :: "runner \<Rightarrow> pstate \<Rightarrow> (pyexn + unit) \<times> pstate" where
  "main_body rc st =
     (case main_setup rc st of
        (Inl e, st') \<Rightarrow> (Inl e, st')
      | (Inr u, st') \<Rightarrow>
          (case main_deploy rc st' of
             (Inl e, st'') \<Rightarrow> (Inl e, st'')
           | (Inr deploy, st'') \<Rightarrow> (Inr (), main_report deploy st'')))"

definition main :: "world \<Rightarrow> pstate \<Rightarrow> (pyexn + unit) \<times> pstate" where
  "main w st = main_body (run_command w) st"


section \<open>Observations\<close>

text \<open>
  For an outcome of the child: the value \<open>run_command\<close> returns, and the line it prints
  last. Both are read off the branches of \<open>run_command\<close> and serve to state what a call
  adds to the trace.
\<close>

fun returned :: "outcome \<Rightarrow> string option" where
  "returned (Exits rc out err) = (if rc = 0 then Some out else None)"
| "returned TimesOut = None"
| "returned (Fails m) = None"

fun report :: "int \<Rightarrow> outcome \<Rightarrow> string" where
  "report t (Exits rc out err) =
     (if rc = 0 then sym_check @ '' Success: '' @ out else sym_cross @ '' Error: '' @ err)"
| "report t TimesOut = sym_clock @ '' Timeout after '' @ str_int t @ ''s''"
| "report t (Fails m) = sym_collision @ '' Exception: '' @ m"

definition executing :: "string \<Rightarrow> string" where
  "executing cmd = sym_arrows @ '' Executing: '' @ cmd"

definition call_events :: "world \<Rightarrow> nat \<Rightarrow> string \<Rightarrow> int \<Rightarrow> env \<Rightarrow> event list" where
  "call_events w n cmd t e =
     [Print (executing cmd),
      SubprocessRun (invocation_of cmd t e),
      Print (report t (w n (invocation_of cmd t e)))]"

text \<open>The environment once line 44 has run, and the whole trace of a run of \<open>main\<close>.\<close>

definition token_env :: "env \<Rightarrow> env" where
  "token_env e = setitem ''RAILWAY_TOKEN'' railway_token e"

definition main_events :: "world \<Rightarrow> env \<Rightarrow> event list" where
  "main_events w e =
     [Print msg_title, Print (replicate 50 (CHR ''='')),
      SetEnv ''RAILWAY_TOKEN'' railway_token, Print msg_status]
     @ call_events w 0 ''railway status'' 30 (token_env e)
     @ [Print msg_variables]
     @ call_events w 1 (set_cmd ''NODE_ENV'' ''production'') 10 (token_env e) @ [Sleep 1]
     @ call_events w 2 (set_cmd ''PORT'' ''3001'') 10 (token_env e) @ [Sleep 1]
     @ call_events w 3 (set_cmd ''WEBHOOK_SECRET'' ''auto-alert-webhook-secret-2024'') 10
         (token_env e) @ [Sleep 1]
     @ [Print msg_deploy]
     @ call_events w 4 ''railway up --detach'' 120 (token_env e)
     @ (if truthy (returned (w 4 (invocation_of ''railway up --detach'' 120 (token_env e))))
        then [Print msg_success, Print msg_logs, Print msg_dashboard]
        else [Print msg_failure])
     @ [Print msg_complete]"

text \<open>
  Projections of a trace: the calls of \<open>subprocess.run\<close> with their arguments; the
  assignments to \<open>os.environ\<close>; and everything but the printed lines.
\<close>

fun invocations :: "event list \<Rightarrow> invocation list" where
  "invocations [] = []"
| "invocations (SubprocessRun c # es) = c # invocations es"
| "invocations (Print s # es) = invocations es"
| "invocations (SetEnv k v # es) = invocations es"
| "invocations (Sleep n # es) = invocations es"

fun env_writes :: "event list \<Rightarrow> (string \<times> string) list" where
  "env_writes [] = []"
| "env_writes (SetEnv k v # es) = (k, v) # env_writes es"
| "env_writes (Print s # es) = env_writes es"
| "env_writes (SubprocessRun c # es) = env_writes es"
| "env_writes (Sleep n # es) = env_writes es"

fun effects :: "event list \<Rightarrow> event list" where
  "effects [] = []"
| "effects (Print s # es) = effects es"
| "effects (SetEnv k v # es) = SetEnv k v # effects es"
| "effects (SubprocessRun c # es) = SubprocessRun c # effects es"
| "effects (Sleep n # es) = Sleep n # effects es"

text \<open>The final state of a run of \<open>main\<close> from a fresh process, and whether it printed a line.\<close>

definition final :: "world \<Rightarrow> env \<Rightarrow> pstate" where
  "final w e = snd (main w (initial e))"

definition prints :: "world \<Rightarrow> env \<Rightarrow> string \<Rightarrow> bool" where
  "prints w e s = (Print s \<in> set (trace (final w e)))"

text \<open>What line 66 binds to \<open>deploy\<close> in a run of \<open>main\<close> from a fresh process.\<close>

definition deploy_value :: "world \<Rightarrow> env \<Rightarrow> pyexn + string option" where
  "deploy_value w e =
     fst (main_deploy (run_command w) (snd (main_setup (run_command w) (initial e))))"

text \<open>A runner that does what \<open>rc\<close> does and returns \<open>r\<close> whatever \<open>rc\<close> returns.\<close>

definition with_result :: "string option \<Rightarrow> runner \<Rightarrow> runner" where
  "with_result r rc = (\<lambda>cmd t st. (Inr r, snd (rc cmd t st)))"

text \<open>Some worlds: every child succeeds, fails, hangs, cannot be started, or says nothing.\<close>

definition world_ok :: world where
  "world_ok = (\<lambda>n c. Exits 0 ''ok'' [])"

definition world_denied :: world where
  "world_denied = (\<lambda>n c. Exits 1 [] ''Unauthorized'')"

definition world_hanging :: world where
  "world_hanging = (\<lambda>n c. TimesOut)"


definition world_silent :: world where
  "world_silent = (\<lambda>n c. Exits 0 [] [])"

section \<open>What a call and a run add to the trace\<close>

lemma run_command_eq:
  "run_command w cmd t st =
     (Inr (returned (w (calls st) (invocation_of cmd t (environ st)))),
      st\<lparr>trace := trace st @ call_events w (calls st) cmd t (environ st),
         calls := Suc (calls st)\<rparr>)"
  by (cases "w (calls st) (invocation_of cmd t (environ st))")
     (simp_all add: run_command_def subprocess_run_def print_py_def emit_def call_events_def
       executing_def)

lemma main_setup_eq:
  "main_setup (run_command w) (initial e) =
     (Inr (),
      \<lparr>environ = token_env e,
       trace =
         [Print msg_title, Print (replicate 50 (CHR ''='')),
          SetEnv ''RAILWAY_TOKEN'' railway_token, Print msg_status]
         @ call_events w 0 ''railway status'' 30 (token_env e)
         @ [Print msg_variables]
         @ call_events w 1 (set_cmd ''NODE_ENV'' ''production'') 10 (token_env e) @ [Sleep 1]
         @ call_events w 2 (set_cmd ''PORT'' ''3001'') 10 (token_env e) @ [Sleep 1]
         @ call_events w 3 (set_cmd ''WEBHOOK_SECRET'' ''auto-alert-webhook-secret-2024'') 10
             (token_env e) @ [Sleep 1],
       calls = 4\<rparr>)"
  by (simp add: main_setup_def run_command_eq env_vars_def initial_def print_py_def emit_def
      os_environ_set_def time_sleep_def default_timeout_def token_env_def eval_nat_numeral)

lemma main_eq:
  "main w (initial e) =
     (Inr (), \<lparr>environ = token_env e, trace = main_events w e, calls = 5\<rparr>)"
  by (simp add: main_def main_body_def main_setup_eq main_deploy_def main_report_def
      run_command_eq print_py_def emit_def main_events_def)

lemma report_neq_success: "report t oc \<noteq> msg_success"
  by (cases oc) (simp_all add: msg_success_def newline_def sym_check_def sym_cross_def
      sym_clock_def sym_collision_def)

lemma report_neq_failure: "report t oc \<noteq> msg_failure"
  by (cases oc) (simp_all add: msg_failure_def newline_def sym_check_def sym_cross_def
      sym_clock_def sym_collision_def)

lemma executing_neq_success: "executing c \<noteq> msg_success"
  by (simp add: executing_def msg_success_def newline_def sym_arrows_def)

lemma executing_neq_failure: "executing c \<noteq> msg_failure"
  by (simp add: executing_def msg_failure_def newline_def sym_arrows_def)

lemma fixed_neq_success:
  "msg_title \<noteq> msg_success" "replicate 50 (CHR ''='') \<noteq> msg_success"
  "msg_status \<noteq> msg_success" "msg_variables \<noteq> msg_success" "msg_deploy \<noteq> msg_success"
  "msg_logs \<noteq> msg_success" "msg_dashboard \<noteq> msg_success" "msg_failure \<noteq> msg_success"
  "msg_complete \<noteq> msg_success"
  by (simp_all add: msg_title_def msg_success_def msg_status_def msg_variables_def
      msg_deploy_def msg_logs_def msg_dashboard_def msg_failure_def msg_complete_def
      newline_def sym_locomotive_def sym_check_def sym_chart_def sym_key_def sym_rocket_def
      sym_glass_def sym_globe_def sym_cross_def sym_popper_def eval_nat_numeral)

lemma fixed_neq_failure:
  "msg_title \<noteq> msg_failure" "replicate 50 (CHR ''='') \<noteq> msg_failure"
  "msg_status \<noteq> msg_failure" "msg_variables \<noteq> msg_failure" "msg_deploy \<noteq> msg_failure"
  "msg_logs \<noteq> msg_failure" "msg_dashboard \<noteq> msg_failure" "msg_success \<noteq> msg_failure"
  "msg_complete \<noteq> msg_failure"
  by (simp_all add: msg_title_def msg_success_def msg_status_def msg_variables_def
      msg_deploy_def msg_logs_def msg_dashboard_def msg_failure_def msg_complete_def
      newline_def sym_locomotive_def sym_check_def sym_chart_def sym_key_def sym_rocket_def
      sym_glass_def sym_globe_def sym_cross_def sym_popper_def eval_nat_numeral)

lemma success_in_main_events:
  "Print msg_success \<in> set (main_events w e) \<longleftrightarrow>
     truthy (returned (w 4 (invocation_of ''railway up --detach'' 120 (token_env e))))"
  using fixed_neq_success [symmetric]
  by (simp add: main_events_def call_events_def report_neq_success [symmetric]
      executing_neq_success [symmetric])

lemma failure_in_main_events:
  "Print msg_failure \<in> set (main_events w e) \<longleftrightarrow>
     \<not> truthy (returned (w 4 (invocation_of ''railway up --detach'' 120 (token_env e))))"
  using fixed_neq_failure [symmetric]
  by (simp add: main_events_def call_events_def report_neq_failure [symmetric]
      executing_neq_failure [symmetric])

lemma invocations_call_events [simp]:
  "invocations (call_events w n cmd t e @ es) = invocation_of cmd t e # invocations es"
  by (simp add: call_events_def)

lemma env_writes_call_events [simp]:
  "env_writes (call_events w n cmd t e @ es) = env_writes es"
  by (simp add: call_events_def)

lemma effects_call_events [simp]:
  "effects (call_events w n cmd t e @ es) = SubprocessRun (invocation_of cmd t e) # effects es"
  by (simp add: call_events_def)

lemma invocations_main_events:
  "invocations (main_events w e) =
     [invocation_of ''railway status'' 30 (token_env e),
      invocation_of (set_cmd ''NODE_ENV'' ''production'') 10 (token_env e),
      invocation_of (set_cmd ''PORT'' ''3001'') 10 (token_env e),
      invocation_of (set_cmd ''WEBHOOK_SECRET'' ''auto-alert-webhook-secret-2024'') 10 (token_env e),
      invocation_of ''railway up --detach'' 120 (token_env e)]"
  by (simp add: main_events_def call_events_def)

lemma final_eq:
  "final w e = \<lparr>environ = token_env e, trace = main_events w e, calls = 5\<rparr>"
  by (simp add: final_def main_eq)


lemma map_of_setitem: "map_of (setitem k v e) k = Some v"
  by (induction e) auto

lemma deploy_value_eq:
  "deploy_value w e =
     Inr (returned (w 4 (invocation_of ''railway up --detach'' 120 (token_env e))))"
  by (simp add: deploy_value_def main_setup_eq main_deploy_def run_command_eq print_py_def
      emit_def)

lemma runner_agree:
  assumes eff: "\<And>c t s. snd (rc c t s) = snd (rc' c t s)"
    and ret: "\<And>c t s. \<exists>r r'. fst (rc c t s) = Inr r \<and> fst (rc' c t s) = Inr r'
                \<and> (c = ''railway up --detach'' \<longrightarrow> truthy r = truthy r')"
  obtains r r' s' where "rc c t s = (Inr r, s')" and "rc' c t s = (Inr r', s')"
    and "c = ''railway up --detach'' \<longrightarrow> truthy r = truthy r'"
proof -
  obtain x s1 where a: "rc c t s = (x, s1)" by (cases "rc c t s")
  obtain y s2 where b: "rc' c t s = (y, s2)" by (cases "rc' c t s")
  have same: "s1 = s2" using eff [of c t s] a b by simp
  obtain r r' where "x = Inr r" "y = Inr r'"
    "c = ''railway up --detach'' \<longrightarrow> truthy r = truthy r'"
    using ret [of c t s] a b by auto
  then show thesis using that a b same by simp
qed

lemma set_variables_agree:
  assumes eff: "\<And>c t s. snd (rc c t s) = snd (rc' c t s)"
    and ret: "\<And>c t s. \<exists>r r'. fst (rc c t s) = Inr r \<and> fst (rc' c t s) = Inr r'
                \<and> (c = ''railway up --detach'' \<longrightarrow> truthy r = truthy r')"
  shows "set_variables rc kvs st = set_variables rc' kvs st"
proof (induction kvs arbitrary: st)
  case Nil
  show ?case by simp
next
  case (Cons kv kvs)
  obtain k v where kv: "kv = (k, v)" by (cases kv)
  obtain r r' s' where "rc (set_cmd k v) 10 st = (Inr r, s')"
    and "rc' (set_cmd k v) 10 st = (Inr r', s')"
    by (rule runner_agree [OF eff ret])
  then show ?case by (simp add: kv Cons.IH)
qed

section \<open>Claims about run_command\<close>

text \<open>
  C1. For every command string and timeout, \<open>run_command\<close> returns the captured
  standard output \<open>s\<close> exactly when the child exits with code 0 and standard output \<open>s\<close>;
  when the child exits with another code, it returns \<open>None\<close> and the line it prints
  after the call is the error mark followed by the captured standard error.
\<close>

theorem run_command_exit_code:
  "(fst (run_command w cmd t st) = Inr (Some s)
      \<longleftrightarrow> (\<exists>err. w (calls st) (invocation_of cmd t (environ st)) = Exits 0 s err))
   \<and> (w (calls st) (invocation_of cmd t (environ st)) = Exits rc out err \<and> rc \<noteq> 0
      \<longrightarrow> fst (run_command w cmd t st) = Inr None
        \<and> trace (snd (run_command w cmd t st)) =
            trace st @
            [Print (sym_arrows @ '' Executing: '' @ cmd),
             SubprocessRun (invocation_of cmd t (environ st)),
             Print (sym_cross @ '' Error: '' @ err)])"
  by (cases "w (calls st) (invocation_of cmd t (environ st))")
     (auto simp add: run_command_eq call_events_def executing_def)

theorem run_command_exit_code_witness:
  "world_denied (calls (initial [])) (invocation_of ''railway status'' 30 (environ (initial [])))
     = Exits 1 [] ''Unauthorized''
   \<and> fst (run_command world_denied ''railway status'' 30 (initial [])) = Inr None
   \<and> trace (snd (run_command world_denied ''railway status'' 30 (initial []))) =
       [Print (sym_arrows @ '' Executing: railway status''),
        SubprocessRun (invocation_of ''railway status'' 30 []),
        Print (sym_cross @ '' Error: Unauthorized'')]
   \<and> fst (run_command world_ok ''railway status'' 30 (initial [])) = Inr (Some ''ok'')"
  using run_command_exit_code [of world_denied "''railway status''" 30 "initial []" "''ok''" 1 "[]" "''Unauthorized''"]
    run_command_exit_code [of world_ok "''railway status''" 30 "initial []" "''ok''" 1 "[]" "[]"]
  by (simp add: world_denied_def world_ok_def initial_def)



section \<open>Claims about main\<close>


text \<open>
  C4. When the deploy call returns a non-empty string, \<open>main\<close> prints the success
  message and not the failure message; when it returns \<open>None\<close>, \<open>main\<close> prints the
  failure message and not the success message. No run prints both, and each case
  happens in some world.
\<close>

theorem main_final_message:
  "(deploy_value w e = Inr (Some s) \<and> s \<noteq> []
      \<longrightarrow> prints w e msg_success \<and> \<not> prints w e msg_failure)
   \<and> (deploy_value w e = Inr None
      \<longrightarrow> prints w e msg_failure \<and> \<not> prints w e msg_success)
   \<and> \<not> (prints w e msg_success \<and> prints w e msg_failure)
   \<and> (\<exists>w' s'. deploy_value w' e = Inr (Some s') \<and> s' \<noteq> [] \<and> prints w' e msg_success)
   \<and> (\<exists>w'. deploy_value w' e = Inr None \<and> prints w' e msg_failure)"
proof -
  have ok: "deploy_value world_ok e = Inr (Some ''ok'')"
    by (simp add: deploy_value_eq world_ok_def)
  have denied: "deploy_value world_denied e = Inr None"
    by (simp add: deploy_value_eq world_denied_def)
  have a: "\<exists>w' s'. deploy_value w' e = Inr (Some s') \<and> s' \<noteq> [] \<and> prints w' e msg_success"
    using ok by (intro exI [of _ world_ok] exI [of _ "''ok''"])
      (simp add: prints_def final_eq success_in_main_events deploy_value_eq)
  have b: "\<exists>w'. deploy_value w' e = Inr None \<and> prints w' e msg_failure"
    using denied by (intro exI [of _ world_denied])
      (simp add: prints_def final_eq failure_in_main_events deploy_value_eq)
  show ?thesis
    using a b
    by (simp add: prints_def final_eq success_in_main_events failure_in_main_events
        deploy_value_eq)
qed

theorem main_final_message_witness:
  "deploy_value world_ok [] = Inr (Some ''ok'')
   \<and> prints world_ok [] msg_success \<and> \<not> prints world_ok [] msg_failure
   \<and> deploy_value world_hanging [] = Inr None
   \<and> prints world_hanging [] msg_failure \<and> \<not> prints world_hanging [] msg_success"
  using main_final_message [of world_ok "[]" "''ok''"]
    main_final_message [of world_hanging "[]" "[]"]
  by (simp add: deploy_value_eq world_ok_def world_hanging_def)



text \<open>
  C7. A run of \<open>main\<close> assigns to \<open>os.environ\<close> exactly once, the token to
  \<open>RAILWAY_TOKEN\<close>. The assignment is the third event of the run, after two printed
  lines and before every call of \<open>subprocess.run\<close>: all five calls come later, each with
  the environment the assignment left, in which \<open>RAILWAY_TOKEN\<close> is the token; and that
  is still the environment when \<open>main\<close> ends.
\<close>

theorem token_set_once_before_commands:
  "env_writes (trace (final w e)) = [(''RAILWAY_TOKEN'', railway_token)]
   \<and> take 3 (trace (final w e)) =
       [Print msg_title, Print (replicate 50 (CHR ''='')),
        SetEnv ''RAILWAY_TOKEN'' railway_token]
   \<and> map p_env (invocations (drop 3 (trace (final w e)))) =
       replicate 5 (setitem ''RAILWAY_TOKEN'' railway_token e)
   \<and> length (invocations (trace (final w e))) = 5
   \<and> map (\<lambda>c. map_of (p_env c) ''RAILWAY_TOKEN'') (invocations (trace (final w e))) =
       replicate 5 (Some railway_token)
   \<and> environ (final w e) = setitem ''RAILWAY_TOKEN'' railway_token e"
  by (simp add: final_eq main_events_def invocation_of_def token_env_def map_of_setitem
      eval_nat_numeral)

text \<open>
  C8, as amended. \<open>main\<close> uses what \<open>run_command\<close> returns in one place only, and there
  only its truth value: take two runners with the same effects that both return (rather
  than raise), whose results differ in any way at the status and variable-set calls and
  agree in truth value at the deploy call; then \<open>main\<close> behaves the same over both.
\<close>

theorem main_uses_only_deploy_truth:
  assumes eff: "\<And>c t s. snd (rc c t s) = snd (rc' c t s)"
    and ret: "\<And>c t s. \<exists>r r'. fst (rc c t s) = Inr r \<and> fst (rc' c t s) = Inr r'
                \<and> (c = ''railway up --detach'' \<longrightarrow> truthy r = truthy r')"
  shows "main_body rc st = main_body rc' st"
proof -
  have loop: "\<And>s. set_variables rc env_vars s = set_variables rc' env_vars s"
    by (rule set_variables_agree [OF eff ret])
  have pre: "main_setup rc st = main_setup rc' st"
  proof -
    obtain r r' s' where
      "rc ''railway status'' default_timeout
         (print_py msg_status
           (os_environ_set ''RAILWAY_TOKEN'' railway_token
             (print_py (replicate 50 (CHR ''='')) (print_py msg_title st)))) = (Inr r, s')"
      and "rc' ''railway status'' default_timeout
         (print_py msg_status
           (os_environ_set ''RAILWAY_TOKEN'' railway_token
             (print_py (replicate 50 (CHR ''='')) (print_py msg_title st)))) = (Inr r', s')"
      by (rule runner_agree [OF eff ret])
    then show ?thesis by (simp add: main_setup_def loop)
  qed
  have dep: "(case main_deploy rc s of
                (Inl ex, s'') \<Rightarrow> (Inl ex, s'')
              | (Inr deploy, s'') \<Rightarrow> (Inr (), main_report deploy s''))
           = (case main_deploy rc' s of
                (Inl ex, s'') \<Rightarrow> (Inl ex, s'')
              | (Inr deploy, s'') \<Rightarrow> (Inr (), main_report deploy s''))" for s
  proof -
    obtain r r' s' where "rc ''railway up --detach'' 120 (print_py msg_deploy s) = (Inr r, s')"
      and "rc' ''railway up --detach'' 120 (print_py msg_deploy s) = (Inr r', s')"
      and "''railway up --detach'' = ''railway up --detach'' \<longrightarrow> truthy r = truthy r'"
      by (rule runner_agree [OF eff ret])
    then show ?thesis by (simp add: main_deploy_def main_report_def)
  qed
  show ?thesis
    unfolding main_body_def pre
    by (cases "main_setup rc' st") (simp add: dep split: sum.split)
qed

theorem main_uses_only_deploy_truth_witness:
  "main_body (run_command world_ok) (initial [])
     = main_body (with_result (Some ''anything'') (run_command world_ok)) (initial [])"
proof (rule main_uses_only_deploy_truth)
  show "snd (run_command world_ok c t s)
          = snd (with_result (Some ''anything'') (run_command world_ok) c t s)" for c t s
    by (simp add: with_result_def)
  show "\<exists>r r'. fst (run_command world_ok c t s) = Inr r
          \<and> fst (with_result (Some ''anything'') (run_command world_ok) c t s) = Inr r'
          \<and> (c = ''railway up --detach'' \<longrightarrow> truthy r = truthy r')" for c t s
    by (simp add: with_result_def run_command_eq world_ok_def)
qed

text \<open>
  C8 as stated, that no branch of \<open>main\<close> depends on whether a call returned a result
  or an absence, fails: with the same effects of every call, \<open>main\<close> over a
  \<open>run_command\<close> that returns its output differs from \<open>main\<close> over one that returns
  \<open>None\<close> (line 68 tests \<open>deploy\<close>).
\<close>

theorem main_branches_on_deploy:
  "main_body (run_command world_ok) (initial [])
     \<noteq> main_body (with_result None (run_command world_ok)) (initial [])"
proof -
  define A where "A = main_body (run_command world_ok) (initial [])"
  define B where "B = main_body (with_result None (run_command world_ok)) (initial [])"
  have a: "Print msg_success \<in> set (trace (snd A))"
    unfolding A_def main_def [symmetric] main_eq
    by (simp add: success_in_main_events world_ok_def)
  have "B = (Inr (),
      \<lparr>environ = token_env [],
       trace = take 24 (main_events world_ok []) @ [Print msg_failure, Print msg_complete],
       calls = 5\<rparr>)"
    unfolding B_def
    by (simp add: main_body_def main_setup_def main_deploy_def main_report_def with_result_def
        run_command_eq env_vars_def initial_def print_py_def emit_def os_environ_set_def
        time_sleep_def call_events_def main_events_def token_env_def default_timeout_def
        eval_nat_numeral)
  then have b: "Print msg_success \<notin> set (trace (snd B))"
    using fixed_neq_success [symmetric]
    by (simp add: main_events_def call_events_def report_neq_success [symmetric]
        executing_neq_success [symmetric])
  show ?thesis
    unfolding A_def [symmetric] B_def [symmetric] using a b by auto
qed

text \<open>
  C9. The fifth call of a run is the deploy call. When its child exits with code 0 and
  empty standard output, \<open>run_command\<close> returns the empty string (a result, not
  \<open>None\<close>), and \<open>main\<close> prints the failure message and not the success message. The
  success message is printed if and only if the deploy child exits with code 0 and
  non-empty standard output.
\<close>

theorem deploy_empty_output:
  "invocations (trace (final w e)) ! 4 = invocation_of ''railway up --detach'' 120 (token_env e)
   \<and> (w 4 (invocation_of ''railway up --detach'' 120 (token_env e)) = Exits 0 [] err
      \<longrightarrow> deploy_value w e = Inr (Some [])
        \<and> prints w e msg_failure \<and> \<not> prints w e msg_success)
   \<and> (prints w e msg_success
      \<longleftrightarrow> (\<exists>out err'. w 4 (invocation_of ''railway up --detach'' 120 (token_env e))
                          = Exits 0 out err' \<and> out \<noteq> []))"
proof -
  have "truthy (returned oc) \<longleftrightarrow> (\<exists>out err'. oc = Exits 0 out err' \<and> out \<noteq> [])" for oc
    by (cases oc) auto
  then show ?thesis
    by (simp add: prints_def final_eq success_in_main_events failure_in_main_events
        deploy_value_eq invocations_main_events)
qed

theorem deploy_empty_output_witness:
  "world_silent 4 (invocation_of ''railway up --detach'' 120 (token_env [])) = Exits 0 [] []
   \<and> deploy_value world_silent [] = Inr (Some [])
   \<and> prints world_silent [] msg_failure \<and> \<not> prints world_silent [] msg_success
   \<and> prints world_ok [] msg_success"
  using deploy_empty_output [of world_silent "[]" "[]"] deploy_empty_output [of world_ok "[]" "[]"]
  by (simp add: world_silent_def world_ok_def)

text \<open>
  C10. The timeouts are fixed by the kind of command: the status command runs with the
  default, which is 30 seconds, each variable-set command with 10 seconds, the deploy
  command with 120 seconds.
\<close>

theorem main_timeouts:
  "default_timeout = 30
   \<and> map (\<lambda>c. (p_args c, p_timeout c)) (invocations (trace (final w e))) =
       [(''railway status'', default_timeout),
        (set_cmd ''NODE_ENV'' ''production'', 10),
        (set_cmd ''PORT'' ''3001'', 10),
        (set_cmd ''WEBHOOK_SECRET'' ''auto-alert-webhook-secret-2024'', 10),
        (''railway up --detach'', 120)]"
  by (simp add: final_eq invocations_main_events invocation_of_def default_timeout_def)

end
